theory Spec2Isabelle
  imports Main
begin

section \<open>Bytes, lines and error codes\<close>

text \<open>
  The four programs exchange newline-terminated lines over TCP. A \<open>std::string\<close> and the
  readable part of an \<open>asio::streambuf\<close> are lists of bytes. An \<open>asio::error_code\<close> is
  modelled by its numeric value: the tests \<open>if (ec)\<close> of the sources are \<open>ec \<noteq> 0\<close>.
\<close>

type_synonym error_code = nat

text \<open>\<open>asio::error::operation_aborted\<close> is \<open>ECANCELED\<close>.\<close>

definition operation_aborted :: error_code where
  "operation_aborted = 125"

definition LF :: char where
  "LF = CHR 0x0A"

definition CR :: char where
  "CR = CHR 0x0D"

text \<open>
  \<open>std::getline(is, line)\<close> on a stream over the buffer: the characters before the first
  \<open>'\n'\<close> become the line, the \<open>'\n'\<close> is extracted and dropped, the rest stays in the
  buffer. Without a \<open>'\n'\<close> the whole content becomes the line. The result is the pair of
  the line and the remaining buffer.
\<close>

fun getline :: "string \<Rightarrow> string \<times> string" where
  "getline [] = ([], [])"
| "getline (c # cs) =
     (if c = LF then ([], cs) else (case getline cs of (line, rest) \<Rightarrow> (c # line, rest)))"

text \<open>\<open>if (!line.empty() && line.back() == '\r') line.pop_back();\<close>\<close>

definition pop_back_cr :: "string \<Rightarrow> string" where
  "pop_back_cr line = (if line \<noteq> [] \<and> last line = CR then butlast line else line)"

section \<open>The asynchronous server: \<open>server_async.cpp\<close>\<close>

definition LISTEN_PORT :: nat where
  "LISTEN_PORT = 5555"

definition MAX_LINE :: nat where
  "MAX_LINE = 64 * 1024"

definition READ_TIMEOUT :: nat where
  "READ_TIMEOUT = 15"

subsection \<open>The session and the library objects it owns\<close>

text \<open>
  A \<open>Session\<close> has the members \<open>socket\<close>, \<open>buffer\<close>, \<open>out\<close> and \<open>timer\<close> (written
  here without the trailing underscore of the source). The two strings are modelled as
  they are. Of the socket and the timer the model keeps what the
  calls of the session do to them:
  \<^item> \<open>sock_open\<close>: the socket has not been closed;
  \<^item> \<open>reads\<close>, \<open>writes\<close>, \<open>waits\<close>: the \<open>async_read_until\<close>, \<open>async_write\<close> and
    \<open>async_wait\<close> operations submitted whose completion handler has not run yet (every
    submitted operation has its handler invoked exactly once, also when it is cancelled);
  \<^item> \<open>armed\<close>: the last call on the timer was \<open>async_wait\<close>, that is, the session has
    armed the timer and has not cancelled it since;
  \<^item> \<open>calls\<close>: every call made on the socket and the timer, oldest first;
  \<^item> \<open>wire\<close>: the outbound messages whose write completed without error, oldest first.
\<close>

datatype call =
    SetNoDelay
  | AsyncReadUntil
  | AsyncWrite string
  | ExpiresAfter nat
  | AsyncWait
  | TimerCancel
  | Shutdown
  | SocketClose

record Session =
  buffer :: string
  out :: string
  sock_open :: bool
  reads :: nat
  writes :: nat
  waits :: nat
  armed :: bool
  calls :: "call list"
  wire :: "string list"

text \<open>The constructor: a connected socket, empty buffers, nothing submitted.\<close>

definition Session_new :: Session where
  "Session_new =
     \<lparr>buffer = [], out = [], sock_open = True, reads = 0, writes = 0, waits = 0,
      armed = False, calls = [], wire = []\<rparr>"

text \<open>\<open>cancel_timeout\<close>: \<open>timer.cancel()\<close>.\<close>

definition cancel_timeout :: "Session \<Rightarrow> Session" where
  "cancel_timeout s = s\<lparr>armed := False, calls := calls s @ [TimerCancel]\<rparr>"

text \<open>
  \<open>close\<close>: cancel the timer, shut the socket down in both directions, close it; the error
  codes of the last two calls are ignored. There is no test of whether the socket is
  still open.
\<close>

definition close :: "Session \<Rightarrow> Session" where
  "close s =
     (let s1 = cancel_timeout s
      in s1\<lparr>sock_open := False, calls := calls s1 @ [Shutdown, SocketClose]\<rparr>)"

text \<open>
  \<open>arm_timeout\<close>: \<open>timer.expires_after(READ_TIMEOUT)\<close>, then \<open>timer.async_wait\<close> with
  the handler \<open>on_timer\<close> below.
\<close>

definition arm_timeout :: "Session \<Rightarrow> Session" where
  "arm_timeout s =
     s\<lparr>armed := True, waits := waits s + 1,
       calls := calls s @ [ExpiresAfter READ_TIMEOUT, AsyncWait]\<rparr>"

text \<open>\<open>do_write\<close>: \<open>async_write\<close> of the whole of \<open>out\<close>, with the handler \<open>on_write\<close>.\<close>

definition do_write :: "Session \<Rightarrow> Session" where
  "do_write s = s\<lparr>writes := writes s + 1, calls := calls s @ [AsyncWrite (out s)]\<rparr>"

text \<open>
  \<open>do_read_line\<close>: when the buffer holds more than \<open>MAX_LINE\<close> bytes the session is
  closed; otherwise \<open>async_read_until\<close> up to \<open>'\n'\<close> is submitted, with the handler
  \<open>on_read\<close>. The buffer is default-constructed, so the library itself puts no bound on it.
\<close>

definition do_read_line :: "Session \<Rightarrow> Session" where
  "do_read_line s =
     (if length (buffer s) > MAX_LINE then close s
      else s\<lparr>reads := reads s + 1, calls := calls s @ [AsyncReadUntil]\<rparr>)"

text \<open>
  The completion handler of the read (the lambda in \<open>do_read_line\<close>): cancel the timer;
  on an error close; otherwise take one line out of the buffer, drop a trailing
  \<open>'\r'\<close>, build the reply in \<open>out\<close> and write it.
\<close>

definition on_read :: "error_code \<Rightarrow> Session \<Rightarrow> Session" where
  "on_read ec s =
     (let s1 = cancel_timeout s
      in if ec \<noteq> 0 then close s1
         else (case getline (buffer s1) of
                 (line, rest) \<Rightarrow>
                   do_write (s1\<lparr>buffer := rest,
                                out := ''# echo> '' @ pop_back_cr line @ [LF]\<rparr>)))"

text \<open>
  The completion handler of the write (the lambda in \<open>do_write\<close>): on an error close;
  otherwise arm the timer and read again.
\<close>

definition on_write :: "error_code \<Rightarrow> Session \<Rightarrow> Session" where
  "on_write ec s = (if ec \<noteq> 0 then close s else do_read_line (arm_timeout s))"

text \<open>
  The completion handler of the timer (the lambda in \<open>arm_timeout\<close>): with an error code
  return, otherwise close.
\<close>

definition on_timer :: "error_code \<Rightarrow> Session \<Rightarrow> Session" where
  "on_timer ec s = (if ec \<noteq> 0 then s else close s)"

text \<open>\<open>start\<close>: set \<open>no_delay\<close> (its error ignored), read, then arm the timer.\<close>

definition start :: "Session \<Rightarrow> Session" where
  "start s = arm_timeout (do_read_line (s\<lparr>calls := calls s @ [SetNoDelay]\<rparr>))"

subsection \<open>The event loop\<close>

text \<open>
  \<open>io.run()\<close> invokes one completion handler at a time. An event is the completion of
  one submitted operation, with the error code the library passes to the handler. For a
  read the event also carries the bytes that the operation appended to \<open>buffer\<close> while
  it was running. A write that completes without error has transmitted all of \<open>out\<close>.
  A completion for which nothing was submitted cannot occur and is skipped.
\<close>

datatype event =
    ReadDone error_code string
  | WriteDone error_code
  | TimerDone error_code

definition commit :: "string \<Rightarrow> Session \<Rightarrow> Session" where
  "commit data s = s\<lparr>buffer := buffer s @ data\<rparr>"

fun deliver :: "event \<Rightarrow> Session \<Rightarrow> Session" where
  "deliver (ReadDone ec data) s =
     (if reads s = 0 then s else on_read ec (commit data (s\<lparr>reads := reads s - 1\<rparr>)))"
| "deliver (WriteDone ec) s =
     (if writes s = 0 then s
      else on_write ec
             (if ec = 0 then s\<lparr>writes := writes s - 1, wire := wire s @ [out s]\<rparr>
              else s\<lparr>writes := writes s - 1\<rparr>))"
| "deliver (TimerDone ec) s =
     (if waits s = 0 then s else on_timer ec (s\<lparr>waits := waits s - 1\<rparr>))"

fun run :: "event list \<Rightarrow> Session \<Rightarrow> Session" where
  "run [] s = s"
| "run (e # es) s = run es (deliver e s)"

subsection \<open>The states of a session\<close>

text \<open>
  The states of the session as the event loop sees it between two handlers: closed once
  the socket is closed, writing while a write is outstanding on the open socket, reading
  otherwise.
\<close>

datatype phase = Reading | Writing | Closed

definition phase_of :: "Session \<Rightarrow> phase" where
  "phase_of s = (if \<not> sock_open s then Closed else if writes s > 0 then Writing else Reading)"


text \<open>The calls that submit an asynchronous operation.\<close>

fun is_async :: "call \<Rightarrow> bool" where
  "is_async AsyncReadUntil = True"
| "is_async (AsyncWrite d) = True"
| "is_async AsyncWait = True"
| "is_async c = False"

fun ec_of :: "event \<Rightarrow> error_code" where
  "ec_of (ReadDone ec data) = ec"
| "ec_of (WriteDone ec) = ec"
| "ec_of (TimerDone ec) = ec"


text \<open>
  What a new session has written to its peer after reading \<open>data\<close> without error and
  writing the reply without error.
\<close>

definition reply_async :: "string \<Rightarrow> string list" where
  "reply_async data = wire (run [ReadDone 0 data, WriteDone 0] (start Session_new))"

subsection \<open>The accept loop of \<open>main\<close>\<close>

text \<open>
  The listener: the \<open>async_accept\<close> operations outstanding, the lines printed on standard
  output, and the sessions started. The handler of an accept gets the error code and the
  socket; \<open>socket.remote_endpoint()\<close> is the throwing overload, so its result is an
  option and \<open>None\<close> is the exception, which leaves the handler before \<open>do_accept\<close>.
\<close>

record Listener =
  accepts :: nat
  stdout :: "string list"
  sessions :: "Session list"

datatype exn = Exception

definition do_accept :: "Listener \<Rightarrow> Listener" where
  "do_accept l = l\<lparr>accepts := accepts l + 1\<rparr>"

definition on_accept :: "error_code \<Rightarrow> string option \<Rightarrow> Listener \<Rightarrow> exn + Listener" where
  "on_accept ec ep l =
     (if ec = 0 then
        (case ep of
           None \<Rightarrow> Inl Exception
         | Some e \<Rightarrow>
             Inr (do_accept
                    (l\<lparr>stdout := stdout l @ [''[server_async] client '' @ e],
                       sessions := sessions l @ [start Session_new]\<rparr>)))
      else Inr (do_accept l))"

text \<open>\<open>main\<close> up to \<open>io.run()\<close>: the acceptor is open, the first accept is submitted.\<close>

definition Listener_start :: Listener where
  "Listener_start =
     do_accept \<lparr>accepts = 0, stdout = [''[server_async] listening on 0.0.0.0:5555''],
                sessions = []\<rparr>"

text \<open>
  The completions of the accepts, in the order the loop delivers them; an exception
  ends \<open>io.run()\<close>.
\<close>

fun accept_loop :: "(error_code \<times> string option) list \<Rightarrow> Listener \<Rightarrow> exn + Listener" where
  "accept_loop [] l = Inr l"
| "accept_loop ((ec, ep) # cs) l =
     (if accepts l = 0 then accept_loop cs l
      else (case on_accept ec ep (l\<lparr>accepts := accepts l - 1\<rparr>) of
              Inl x \<Rightarrow> Inl x
            | Inr l' \<Rightarrow> accept_loop cs l'))"

section \<open>The synchronous server: \<open>server_sync.cpp\<close>\<close>

text \<open>
  One turn of the \<open>for (;;)\<close> loop of \<open>main\<close>: accept, read until \<open>'\n'\<close>, take the
  line, reply, close. The inputs are the error codes of \<open>accept\<close>, \<open>read_until\<close> and
  \<open>write\<close> and the content of \<open>buf\<close> after \<open>read_until\<close>. The result is the string
  passed to \<open>net::write\<close>, if any, and what is logged.
\<close>

datatype sync_log =
    AcceptError
  | ClientConnected
  | ReadUntilError
  | WriteError
  | Replied string
  | ConnectionClosed

definition serve_connection ::
  "error_code \<Rightarrow> error_code \<Rightarrow> string \<Rightarrow> error_code \<Rightarrow> string option \<times> sync_log list" where
  "serve_connection accept_ec read_ec buf write_ec =
     (if accept_ec \<noteq> 0 then (None, [AcceptError])
      else if read_ec \<noteq> 0 then (None, [ClientConnected, ReadUntilError, ConnectionClosed])
      else (case getline buf of
              (line, rest) \<Rightarrow>
                (let outp = ''# echo> '' @ line @ [LF]
                 in (Some outp,
                     [ClientConnected,
                      if write_ec \<noteq> 0 then WriteError else Replied outp,
                      ConnectionClosed]))))"

text \<open>The reply of the synchronous server when it has read \<open>buf\<close> without error.\<close>

definition reply_sync :: "string \<Rightarrow> string option" where
  "reply_sync buf = fst (serve_connection 0 0 buf 0)"

section \<open>The clients\<close>

text \<open>
  What a client run produces: the exit code of \<open>main\<close>, the bytes handed to the write
  (if the run gets that far) and the line printed on standard output (if any).
\<close>

record client_result =
  exit_code :: nat
  sent :: "string option"
  printed :: "string option"

subsection \<open>\<open>client_sync.cpp\<close>\<close>

text \<open>
  \<open>resolver.resolve\<close> and \<open>net::connect\<close> are the throwing overloads: a failure is an
  exception caught at the end of \<open>main\<close>. \<open>std::getline(std::cin, line)\<close> gives the line
  without its \<open>'\n'\<close>, or fails when standard input has nothing.
\<close>

record sync_env =
  resolve_ok :: bool
  connect_ok :: bool
  stdin_line :: "string option"
  write_ec :: error_code
  read_ec :: error_code
  reply_buf :: string

definition client_sync_line :: "string \<Rightarrow> string" where
  "client_sync_line line = line @ [LF]"

definition client_sync_main :: "sync_env \<Rightarrow> client_result" where
  "client_sync_main e =
     (if \<not> resolve_ok e \<or> \<not> connect_ok e then
        \<lparr>exit_code = 1, sent = None, printed = None\<rparr>
      else (case stdin_line e of
              None \<Rightarrow> \<lparr>exit_code = 2, sent = None, printed = None\<rparr>
            | Some line0 \<Rightarrow>
                (let line = client_sync_line line0
                 in if write_ec e \<noteq> 0 then
                      \<lparr>exit_code = 3, sent = Some line, printed = None\<rparr>
                    else if read_ec e \<noteq> 0 then
                      \<lparr>exit_code = 4, sent = Some line, printed = None\<rparr>
                    else
                      \<lparr>exit_code = 0, sent = Some line,
                       printed = Some (fst (getline (reply_buf e)) @ [LF])\<rparr>)))"

subsection \<open>\<open>client_async.cpp\<close>\<close>

text \<open>The body of the constructor of \<open>Client\<close>: the value given to \<open>out\<close>.\<close>

definition Client_out :: "string \<Rightarrow> string" where
  "Client_out line = (if line \<noteq> [] \<and> last line \<noteq> LF then line @ [LF] else line)"

text \<open>
  \<open>main\<close> reads standard input first. The handlers of resolve, connect, write and read
  get an error code; on an error they log and return, and \<open>io.run()\<close> ends. \<open>fatal\<close>
  stands for an exception leaving the \<open>try\<close> block after the line was read.
\<close>

record async_env =
  a_stdin_line :: "string option"
  fatal :: bool
  a_resolve_ec :: error_code
  a_connect_ec :: error_code
  a_write_ec :: error_code
  a_read_ec :: error_code
  a_reply_buf :: string

definition client_async_main :: "async_env \<Rightarrow> client_result" where
  "client_async_main e =
     (case a_stdin_line e of
        None \<Rightarrow> \<lparr>exit_code = 2, sent = None, printed = None\<rparr>
      | Some line \<Rightarrow>
          if fatal e then \<lparr>exit_code = 1, sent = None, printed = None\<rparr>
          else if a_resolve_ec e \<noteq> 0 \<or> a_connect_ec e \<noteq> 0 then
            \<lparr>exit_code = 0, sent = None, printed = None\<rparr>
          else if a_write_ec e \<noteq> 0 \<or> a_read_ec e \<noteq> 0 then
            \<lparr>exit_code = 0, sent = Some (Client_out line), printed = None\<rparr>
          else
            \<lparr>exit_code = 0, sent = Some (Client_out line),
             printed = Some (pop_back_cr (fst (getline (a_reply_buf e))) @ [LF])\<rparr>)"

section \<open>Lemmas on lines\<close>

lemma getline_append: "LF \<notin> set L \<Longrightarrow> getline (L @ LF # rest) = (L, rest)"
  by (induction L) auto

lemma pop_back_cr_snoc: "pop_back_cr (L @ [CR]) = L"
  by (simp add: pop_back_cr_def)

lemma pop_back_cr_id: "L = [] \<or> last L \<noteq> CR \<Longrightarrow> pop_back_cr L = L"
  by (auto simp: pop_back_cr_def)

lemma CR_neq_LF: "CR \<noteq> LF"
  by (simp add: CR_def LF_def)

section \<open>Lemmas on the session\<close>

lemmas session_defs = on_read_def on_write_def on_timer_def close_def cancel_timeout_def
  arm_timeout_def do_write_def do_read_line_def commit_def

lemma start_new:
  "start Session_new =
     \<lparr>buffer = [], out = [], sock_open = True, reads = 1, writes = 0, waits = 1,
      armed = True, calls = [SetNoDelay, AsyncReadUntil, ExpiresAfter READ_TIMEOUT, AsyncWait],
      wire = []\<rparr>"
  by (simp add: start_def Session_new_def do_read_line_def arm_timeout_def MAX_LINE_def)

text \<open>The read handler on a buffer that starts with a whole line.\<close>

lemma on_read_line:
  assumes "LF \<notin> set L" and "buffer s = L @ LF # rest"
  shows "on_read 0 s =
           s\<lparr>buffer := rest, out := ''# echo> '' @ pop_back_cr L @ [LF], writes := writes s + 1,
             armed := False,
             calls := calls s @ [TimerCancel, AsyncWrite (''# echo> '' @ pop_back_cr L @ [LF])]\<rparr>"
  using assms by (simp add: on_read_def cancel_timeout_def do_write_def getline_append)

text \<open>One request and its reply, from a reading session whose buffer is empty.\<close>

lemma exchange_step:
  assumes "LF \<notin> set L" and "buffer s = []" and "reads s = 1" and "writes s = 0"
  shows "run [ReadDone 0 (L @ [LF]), WriteDone 0] s =
           s\<lparr>out := ''# echo> '' @ pop_back_cr L @ [LF], armed := True, waits := waits s + 1,
             calls := calls s @ [TimerCancel, AsyncWrite (''# echo> '' @ pop_back_cr L @ [LF]),
                                 ExpiresAfter READ_TIMEOUT, AsyncWait, AsyncReadUntil],
             wire := wire s @ [''# echo> '' @ pop_back_cr L @ [LF]]\<rparr>"
proof -
  let ?s1 = "commit (L @ [LF]) (s\<lparr>reads := reads s - 1\<rparr>)"
  have b: "buffer ?s1 = L @ LF # []" using assms by (simp add: commit_def)
  have d: "deliver (ReadDone 0 (L @ [LF])) s = on_read 0 ?s1" using assms by simp
  have r: "deliver (ReadDone 0 (L @ [LF])) s =
             s\<lparr>reads := 0, buffer := [], out := ''# echo> '' @ pop_back_cr L @ [LF],
               writes := 1, armed := False,
               calls := calls s @ [TimerCancel, AsyncWrite (''# echo> '' @ pop_back_cr L @ [LF])]\<rparr>"
    unfolding d on_read_line [OF assms(1) b] using assms by (simp add: commit_def)
  have "run [ReadDone 0 (L @ [LF]), WriteDone 0] s =
          deliver (WriteDone 0) (deliver (ReadDone 0 (L @ [LF])) s)"
    by simp
  also have "\<dots> = s\<lparr>out := ''# echo> '' @ pop_back_cr L @ [LF], armed := True, waits := waits s + 1,
             calls := calls s @ [TimerCancel, AsyncWrite (''# echo> '' @ pop_back_cr L @ [LF]),
                                 ExpiresAfter READ_TIMEOUT, AsyncWait, AsyncReadUntil],
             wire := wire s @ [''# echo> '' @ pop_back_cr L @ [LF]]\<rparr>"
    unfolding r using assms
    by (simp add: on_write_def arm_timeout_def do_read_line_def MAX_LINE_def)
  finally show ?thesis .
qed


lemma reply_async_line:
  assumes "LF \<notin> set L"
  shows "reply_async (L @ [LF]) = [''# echo> '' @ pop_back_cr L @ [LF]]"
proof -
  have s: "buffer (start Session_new) = []" "reads (start Session_new) = 1"
    "writes (start Session_new) = 0" "wire (start Session_new) = []"
    by (simp_all add: start_new)
  show ?thesis
    unfolding reply_async_def exchange_step [OF assms s(1,2,3)] using s(4) by simp
qed




text \<open>No handler opens the socket, and a handler given an error submits nothing.\<close>

lemma closed_deliver: "\<not> sock_open s \<Longrightarrow> \<not> sock_open (deliver e s)"
  by (cases e) (auto simp: session_defs Let_def split: prod.splits if_splits)

lemma closed_run: "\<not> sock_open s \<Longrightarrow> \<not> sock_open (run es s)"
  by (induction es arbitrary: s) (simp_all add: closed_deliver)

lemma error_deliver_async:
  "ec_of e \<noteq> 0 \<Longrightarrow> filter is_async (calls (deliver e s)) = filter is_async (calls s)"
  by (cases e) (auto simp: session_defs Let_def split: prod.splits if_splits)

lemma error_run_async:
  "\<forall>e\<in>set es. ec_of e \<noteq> 0 \<Longrightarrow> filter is_async (calls (run es s)) = filter is_async (calls s)"
  by (induction es arbitrary: s) (simp_all add: error_deliver_async)

text \<open>
  The timer handler acts on the error code alone: with an error the session is left as
  it is, without one it is closed, whatever the session did to the timer before.
\<close>

lemma timer_error_ignored:
  "ec \<noteq> 0 \<Longrightarrow> waits s > 0 \<Longrightarrow> deliver (TimerDone ec) s = s\<lparr>waits := waits s - 1\<rparr>"
  by (simp add: on_timer_def)

lemma timer_success_closes: "waits s > 0 \<Longrightarrow> \<not> sock_open (deliver (TimerDone 0) s)"
  by (simp add: on_timer_def close_def cancel_timeout_def)

text \<open>
  A handler given an error leaves \<open>out\<close> and what was written as they are, and calls
  nothing but the timer cancel, the shutdown and the close. A handler given no error
  submits at most two operations (the write handler: a wait and a read).
\<close>

lemma error_deliver_out_wire:
  "ec_of e \<noteq> 0 \<Longrightarrow> out (deliver e s) = out s \<and> wire (deliver e s) = wire s"
  by (cases e) (auto simp: session_defs Let_def split: prod.splits if_splits)

lemma error_run_out_wire:
  "\<forall>e\<in>set es. ec_of e \<noteq> 0 \<Longrightarrow> out (run es s) = out s \<and> wire (run es s) = wire s"
  by (induction es arbitrary: s) (simp_all add: error_deliver_out_wire)

lemma error_deliver_calls:
  "ec_of e \<noteq> 0 \<Longrightarrow>
     set (calls (deliver e s)) \<subseteq> set (calls s) \<union> {TimerCancel, Shutdown, SocketClose}"
  by (cases e) (auto simp: session_defs Let_def split: prod.splits if_splits)

lemma error_run_calls:
  "\<forall>e\<in>set es. ec_of e \<noteq> 0 \<Longrightarrow>
     set (calls (run es s)) \<subseteq> set (calls s) \<union> {TimerCancel, Shutdown, SocketClose}"
proof (induction es arbitrary: s)
  case Nil
  show ?case by auto
next
  case (Cons e es)
  have e: "ec_of e \<noteq> 0" and es: "\<forall>e\<in>set es. ec_of e \<noteq> 0"
    using Cons.prems by simp_all
  have 1: "set (calls (deliver e s)) \<subseteq> set (calls s) \<union> {TimerCancel, Shutdown, SocketClose}"
    by (rule error_deliver_calls [OF e])
  have 2: "set (calls (run es (deliver e s)))
             \<subseteq> set (calls (deliver e s)) \<union> {TimerCancel, Shutdown, SocketClose}"
    by (rule Cons.IH [OF es])
  have "run (e # es) s = run es (deliver e s)" by simp
  then show ?case using 1 2 by auto
qed

lemma deliver_async_bound:
  "length (filter is_async (calls (deliver e s)))
     \<le> length (filter is_async (calls s)) + (if ec_of e = 0 then 2 else 0)"
  by (cases e) (auto simp: session_defs Let_def split: prod.splits if_splits)

lemma run_async_bound:
  "length (filter is_async (calls (run es s)))
     \<le> length (filter is_async (calls s)) + 2 * length (filter (\<lambda>e. ec_of e = 0) es)"
proof (induction es arbitrary: s)
  case Nil
  then show ?case by simp
next
  case (Cons e es)
  have 1: "length (filter is_async (calls (run es (deliver e s))))
             \<le> length (filter is_async (calls (deliver e s)))
                 + 2 * length (filter (\<lambda>e. ec_of e = 0) es)"
    by (rule Cons.IH)
  have 2: "length (filter is_async (calls (deliver e s)))
             \<le> length (filter is_async (calls s)) + (if ec_of e = 0 then 2 else 0)"
    by (rule deliver_async_bound)
  show ?case using 1 2 by (simp split: if_splits)
qed

section \<open>Lemmas on the accept loop\<close>

lemma accept_loop_ok:
  assumes "\<forall>c\<in>set cs. fst c = 0 \<longrightarrow> snd c \<noteq> None" and "accepts l = 1"
  shows "\<exists>l'. accept_loop cs l = Inr l' \<and> accepts l' = 1
           \<and> stdout l' = stdout l @ map (\<lambda>c. ''[server_async] client '' @ the (snd c))
                                         (filter (\<lambda>c. fst c = 0) cs)
           \<and> length (sessions l') = length (sessions l) + length (filter (\<lambda>c. fst c = 0) cs)"
  using assms
proof (induction cs arbitrary: l)
  case Nil
  then show ?case by simp
next
  case (Cons c cs)
  obtain ec ep where c: "c = (ec, ep)" by (cases c)
  have rest: "\<forall>c\<in>set cs. fst c = 0 \<longrightarrow> snd c \<noteq> None" using Cons.prems(1) by simp
  show ?case
  proof (cases "ec = 0")
    case True
    then obtain e where ep: "ep = Some e" using Cons.prems(1) c by auto
    let ?l = "do_accept (l\<lparr>accepts := accepts l - 1,
                 stdout := stdout l @ [''[server_async] client '' @ e],
                 sessions := sessions l @ [start Session_new]\<rparr>)"
    have step: "accept_loop (c # cs) l = accept_loop cs ?l"
      using Cons.prems(2) True by (simp add: c ep on_accept_def)
    have one: "accepts ?l = 1" using Cons.prems(2) by (simp add: do_accept_def)
    from Cons.IH [OF rest one] show ?thesis
      unfolding step using True by (auto simp: c ep do_accept_def)
  next
    case False
    have same: "do_accept (l\<lparr>accepts := accepts l - 1\<rparr>) = l"
      using Cons.prems(2) by (cases l) (simp add: do_accept_def)
    have "accept_loop (c # cs) l = accept_loop cs (do_accept (l\<lparr>accepts := accepts l - 1\<rparr>))"
      using Cons.prems(2) False by (simp add: c on_accept_def)
    then have step: "accept_loop (c # cs) l = accept_loop cs l"
      unfolding same .
    from Cons.IH [OF rest Cons.prems(2)] show ?thesis
      unfolding step using False by (auto simp: c)
  qed
qed

section \<open>The claims\<close>

subsection \<open>C1: the reply to a line\<close>

text \<open>
  Claim C1. For a line \<open>L\<close> without \<open>'\n'\<close>, a server that has read \<open>L\<close> and the
  \<open>'\n'\<close> replies \<open>"# echo> "\<close>, then the line, then \<open>'\n'\<close>. The synchronous server
  replies with \<open>L\<close> itself. The asynchronous server, in any state with a read outstanding
  whose buffer after the read starts with \<open>L\<close> and \<open>'\n'\<close>, builds the reply from \<open>L\<close>
  without one trailing \<open>'\r'\<close>, submits it as one write and leaves the rest of the
  buffer; the reply is built from \<open>L\<close> itself when \<open>L\<close> does not end in \<open>'\r'\<close>.
\<close>

theorem echo_reply:
  assumes "LF \<notin> set L"
  shows "reply_sync (L @ LF # rest2) = Some (''# echo> '' @ L @ [LF])
       \<and> (reads s > 0 \<and> buffer s @ data = L @ LF # rest \<longrightarrow>
            out (deliver (ReadDone 0 data) s) = ''# echo> '' @ pop_back_cr L @ [LF]
          \<and> calls (deliver (ReadDone 0 data) s) =
              calls s @ [TimerCancel, AsyncWrite (''# echo> '' @ pop_back_cr L @ [LF])]
          \<and> buffer (deliver (ReadDone 0 data) s) = rest)
       \<and> (reads s > 0 \<and> buffer s @ data = L @ LF # rest \<and> (L = [] \<or> last L \<noteq> CR) \<longrightarrow>
            out (deliver (ReadDone 0 data) s) = ''# echo> '' @ L @ [LF])"
proof -
  have sync: "reply_sync (L @ LF # rest2) = Some (''# echo> '' @ L @ [LF])"
    using assms by (simp add: reply_sync_def serve_connection_def getline_append Let_def)
  have async: "out (deliver (ReadDone 0 data) s) = ''# echo> '' @ pop_back_cr L @ [LF]
          \<and> calls (deliver (ReadDone 0 data) s) =
              calls s @ [TimerCancel, AsyncWrite (''# echo> '' @ pop_back_cr L @ [LF])]
          \<and> buffer (deliver (ReadDone 0 data) s) = rest"
    if a: "reads s > 0 \<and> buffer s @ data = L @ LF # rest"
  proof -
    let ?s = "commit data (s\<lparr>reads := reads s - 1\<rparr>)"
    have b: "buffer ?s = L @ LF # rest" using a by (simp add: commit_def)
    have d: "deliver (ReadDone 0 data) s = on_read 0 ?s" using a by simp
    show ?thesis
      unfolding d on_read_line [OF assms b] by (simp add: commit_def)
  qed
  have plain: "out (deliver (ReadDone 0 data) s) = ''# echo> '' @ L @ [LF]"
    if a: "reads s > 0 \<and> buffer s @ data = L @ LF # rest \<and> (L = [] \<or> last L \<noteq> CR)"
  proof -
    have "pop_back_cr L = L" using a by (simp add: pop_back_cr_id)
    then show ?thesis using async a by simp
  qed
  show ?thesis using sync async plain by blast
qed

theorem echo_reply_witness:
  "LF \<notin> set ''hello''
   \<and> reply_sync (''hello'' @ LF # []) = Some (''# echo> '' @ ''hello'' @ [LF])
   \<and> out (deliver (ReadDone 0 (''hello'' @ [LF])) (start Session_new)) = ''# echo> '' @ ''hello'' @ [LF]"
proof -
  have h: "LF \<notin> set ''hello''" by (simp add: LF_def)
  have r: "reads (start Session_new) > 0 \<and>
           buffer (start Session_new) @ (''hello'' @ [LF]) = ''hello'' @ LF # []"
    by (simp add: start_new)
  have c: "''hello'' = [] \<or> last ''hello'' \<noteq> CR" by (simp add: CR_def)
  show ?thesis
    using h r c echo_reply [OF h, of "[]" "start Session_new" "''hello'' @ [LF]" "[]"]
    by blast
qed

text \<open>
  The line \<open>"a\r"\<close> has no \<open>'\n'\<close>, and the asynchronous server answers it with
  \<open>"# echo> a\n"\<close>, not with \<open>"# echo> a\r\n"\<close>.
\<close>

theorem echo_reply_counterexample:
  "LF \<notin> set (''a'' @ [CR])
   \<and> out (run [ReadDone 0 ((''a'' @ [CR]) @ [LF])] (start Session_new)) = ''# echo> a'' @ [LF]
   \<and> out (run [ReadDone 0 ((''a'' @ [CR]) @ [LF])] (start Session_new))
       \<noteq> ''# echo> '' @ (''a'' @ [CR]) @ [LF]"
  by (simp add: start_new on_read_def cancel_timeout_def do_write_def commit_def
      pop_back_cr_def CR_def LF_def)

subsection \<open>C2: the bound on the read buffer\<close>

text \<open>
  Claim C2. The unconsumed length of the read buffer never exceeds \<open>MAX_LINE\<close>, and a
  connection that sends more without a \<open>'\n'\<close> is closed with no reply. The test on
  the length is made in \<open>do_read_line\<close> before a read is submitted, never while the read
  runs, and the buffer has no bound of its own. For a first line of 65537 bytes the buffer
  holds 65538 bytes when the read completes, the session writes the reply of 65546
  bytes, and it is reading again afterwards.
\<close>

theorem oversized_line_echoed:
  "MAX_LINE < length (buffer (commit (replicate 65537 (CHR ''a'') @ [LF]) (start Session_new)))
   \<and> wire (run [ReadDone 0 (replicate 65537 (CHR ''a'') @ [LF]), WriteDone 0] (start Session_new))
       = [''# echo> '' @ replicate 65537 (CHR ''a'') @ [LF]]
   \<and> phase_of (run [ReadDone 0 (replicate 65537 (CHR ''a'') @ [LF]), WriteDone 0]
                 (start Session_new)) = Reading"
proof -
  let ?L = "replicate 65537 (CHR ''a'')"
  have n: "LF \<notin> set ?L" by (simp add: LF_def)
  have p: "pop_back_cr ?L = ?L" by (rule pop_back_cr_id) (simp add: CR_def)
  have s: "buffer (start Session_new) = []" "reads (start Session_new) = 1"
    "writes (start Session_new) = 0" "wire (start Session_new) = []"
    "sock_open (start Session_new)"
    by (simp_all add: start_new)
  have 1: "MAX_LINE < length (buffer (commit (?L @ [LF]) (start Session_new)))"
    by (simp add: commit_def s(1) MAX_LINE_def)
  show ?thesis
    unfolding exchange_step [OF n s(1,2,3)] p using 1 s(4,5,3) by (simp add: phase_of_def)
qed

subsection \<open>C3: one connection, many lines\<close>



subsection \<open>C4: closing\<close>

text \<open>
  Claim C4. The session has no closed state of its own: \<open>close\<close> does not test the
  socket and no handler tests whether the session was closed. What holds once the socket
  is closed, for every sequence of completions delivered afterwards:
  \<^item> the socket stays closed, so it is torn down at most once;
  \<^item> the session submits at most two operations for each completion delivered without
    error, and none for the others;
  \<^item> when all these completions carry an error, as those of the operations that the
    close cancelled do, the session submits no read, write or wait, calls nothing but
    the timer cancel, the shutdown and the close again, and leaves \<open>out\<close> and what was
    written as they are.

  A second \<open>close\<close> changes nothing but the list of calls, where the cancel, the shutdown
  and the close are repeated.
\<close>

theorem closed_stays_closed:
  "(\<not> sock_open s \<longrightarrow> \<not> sock_open (run es s))
 \<and> (\<not> sock_open s \<longrightarrow>
      length (filter is_async (calls (run es s)))
        \<le> length (filter is_async (calls s)) + 2 * length (filter (\<lambda>e. ec_of e = 0) es))
 \<and> (\<not> sock_open s \<and> (\<forall>e\<in>set es. ec_of e \<noteq> 0) \<longrightarrow>
      filter is_async (calls (run es s)) = filter is_async (calls s)
    \<and> set (calls (run es s)) \<subseteq> set (calls s) \<union> {TimerCancel, Shutdown, SocketClose}
    \<and> out (run es s) = out s \<and> wire (run es s) = wire s)
 \<and> close (close s) = (close s)\<lparr>calls := calls (close s) @ [TimerCancel, Shutdown, SocketClose]\<rparr>"
proof -
  have 1: "\<not> sock_open s \<longrightarrow> \<not> sock_open (run es s)"
    by (simp add: closed_run)
  have 2: "length (filter is_async (calls (run es s)))
        \<le> length (filter is_async (calls s)) + 2 * length (filter (\<lambda>e. ec_of e = 0) es)"
    by (rule run_async_bound)
  have 3: "filter is_async (calls (run es s)) = filter is_async (calls s)
    \<and> set (calls (run es s)) \<subseteq> set (calls s) \<union> {TimerCancel, Shutdown, SocketClose}
    \<and> out (run es s) = out s \<and> wire (run es s) = wire s"
    if "\<forall>e\<in>set es. ec_of e \<noteq> 0"
    using that error_run_async [of es s] error_run_calls [of es s] error_run_out_wire [of es s]
    by blast
  have 4: "close (close s) =
             (close s)\<lparr>calls := calls (close s) @ [TimerCancel, Shutdown, SocketClose]\<rparr>"
    by (simp add: close_def cancel_timeout_def)
  show ?thesis using 1 2 3 4 by blast
qed

theorem closed_stays_closed_witness:
  "\<not> sock_open (close (start Session_new))
   \<and> \<not> sock_open (run [ReadDone 0 (''hi'' @ [LF]), WriteDone 0] (close (start Session_new)))
   \<and> length (filter is_async
        (calls (run [ReadDone 0 (''hi'' @ [LF]), WriteDone 0] (close (start Session_new))))) \<le> 6
   \<and> ec_of (ReadDone operation_aborted []) \<noteq> 0 \<and> ec_of (TimerDone operation_aborted) \<noteq> 0
   \<and> filter is_async (calls (run [ReadDone operation_aborted [], TimerDone operation_aborted]
                               (close (start Session_new))))
       = [AsyncReadUntil, AsyncWait]
   \<and> wire (run [ReadDone operation_aborted [], TimerDone operation_aborted]
              (close (start Session_new))) = []"
proof -
  let ?s = "close (start Session_new)"
  have a: "\<not> sock_open ?s" by (simp add: close_def cancel_timeout_def)
  have b: "\<forall>e\<in>set [ReadDone operation_aborted [], TimerDone operation_aborted]. ec_of e \<noteq> 0"
    by (simp add: operation_aborted_def)
  have c: "filter is_async (calls ?s) = [AsyncReadUntil, AsyncWait]" "wire ?s = []"
    by (simp_all add: start_new close_def cancel_timeout_def)
  have d: "ec_of (ReadDone operation_aborted []) \<noteq> 0 \<and> ec_of (TimerDone operation_aborted) \<noteq> 0"
    by (simp add: operation_aborted_def)
  have e: "length (filter is_async (calls ?s))
             + 2 * length (filter (\<lambda>e. ec_of e = 0) [ReadDone 0 (''hi'' @ [LF]), WriteDone 0]) = 6"
    by (simp add: c(1))
  note ok = closed_stays_closed [of ?s "[ReadDone 0 (''hi'' @ [LF]), WriteDone 0]"]
  note err = closed_stays_closed
    [of ?s "[ReadDone operation_aborted [], TimerDone operation_aborted]"]
  have 1: "\<not> sock_open (run [ReadDone 0 (''hi'' @ [LF]), WriteDone 0] ?s)"
    using ok a by blast
  have 2: "length (filter is_async (calls (run [ReadDone 0 (''hi'' @ [LF]), WriteDone 0] ?s))) \<le> 6"
    using ok a unfolding e by blast
  have 3: "filter is_async (calls (run [ReadDone operation_aborted [], TimerDone operation_aborted] ?s))
             = [AsyncReadUntil, AsyncWait]
         \<and> wire (run [ReadDone operation_aborted [], TimerDone operation_aborted] ?s) = []"
    using err a b unfolding c by blast
  show ?thesis using a 1 2 3 d by blast
qed

text \<open>
  The timer expires while a read has just completed with the line \<open>"hi\n"\<close>, so both
  completions are queued. The timer handler runs first and closes the session. The read
  handler runs next, with no error, and submits the write of the reply: an operation on
  the socket after the session was closed.
\<close>

theorem write_after_close:
  "phase_of (run [TimerDone 0] (start Session_new)) = Closed
   \<and> calls (run [TimerDone 0, ReadDone 0 (''hi'' @ [LF])] (start Session_new)) =
       calls (run [TimerDone 0] (start Session_new))
       @ [TimerCancel, AsyncWrite (''# echo> hi'' @ [LF])]
   \<and> writes (run [TimerDone 0, ReadDone 0 (''hi'' @ [LF])] (start Session_new)) = 1"
  by (simp add: start_new session_defs phase_of_def pop_back_cr_def LF_def CR_def)

text \<open>
  An idle connection: the timer expires and its handler closes the session. The read that
  the close cancelled then completes with \<open>operation_aborted\<close>, and its handler cancels
  the timer twice more, shuts the socket down and closes it a second time.
\<close>

lemma close_twice:
  "phase_of (run [TimerDone 0] (start Session_new)) = Closed
   \<and> calls (run [TimerDone 0, ReadDone operation_aborted []] (start Session_new)) =
       calls (run [TimerDone 0] (start Session_new)) @ [TimerCancel, TimerCancel, Shutdown, SocketClose]
   \<and> count_list (calls (run [TimerDone 0, ReadDone operation_aborted []] (start Session_new)))
       SocketClose = 2"
  by (simp add: start_new session_defs phase_of_def operation_aborted_def)

subsection \<open>C5: the timer and its cancellation\<close>

text \<open>
  Claim C5. A completion of the timer delivered after the timer was cancelled is to have
  no effect. The handler looks at the error code alone, and the session keeps no record
  of its own cancel. The library passes no error to the handler of a wait whose deadline
  had passed before \<open>cancel\<close> was called. So when a line arrives as the deadline passes,
  the read handler cancels the timer and submits the reply, and the timer handler,
  delivered next without error, closes the session in its writing state, before the reply
  is written.
\<close>

theorem late_timer_closes:
  "phase_of (run [ReadDone 0 (''hi'' @ [LF])] (start Session_new)) = Writing
   \<and> calls (run [ReadDone 0 (''hi'' @ [LF])] (start Session_new)) =
       [SetNoDelay, AsyncReadUntil, ExpiresAfter READ_TIMEOUT, AsyncWait, TimerCancel,
        AsyncWrite (''# echo> hi'' @ [LF])]
   \<and> phase_of (run [ReadDone 0 (''hi'' @ [LF]), TimerDone 0] (start Session_new)) = Closed
   \<and> wire (run [ReadDone 0 (''hi'' @ [LF]), TimerDone 0] (start Session_new)) = []"
  by (simp add: start_new session_defs phase_of_def pop_back_cr_def LF_def CR_def)

subsection \<open>C6: the carriage return\<close>

text \<open>
  Claim C6. For a line \<open>L\<close> without \<open>'\n'\<close>, the asynchronous server answers \<open>L\<close>
  followed by \<open>"\r\n"\<close> with the echo of \<open>L\<close>: one \<open>'\r'\<close> before the \<open>'\n'\<close> is
  dropped. That is its answer to \<open>L\<close> followed by \<open>"\n"\<close> as well when \<open>L\<close> does not end
  in \<open>'\r'\<close>. The synchronous server drops nothing: its answer keeps the \<open>'\r'\<close>.
\<close>

theorem cr_stripped:
  assumes "LF \<notin> set L"
  shows "reply_async (L @ [CR, LF]) = [''# echo> '' @ L @ [LF]]
       \<and> (L = [] \<or> last L \<noteq> CR \<longrightarrow> reply_async (L @ [CR, LF]) = reply_async (L @ [LF]))
       \<and> reply_sync (L @ [CR, LF]) = Some (''# echo> '' @ L @ [CR, LF])"
proof (intro conjI impI)
  have n: "LF \<notin> set (L @ [CR])" using assms CR_neq_LF by auto
  show a: "reply_async (L @ [CR, LF]) = [''# echo> '' @ L @ [LF]]"
    using reply_async_line [OF n] by (simp add: pop_back_cr_snoc)
  show "reply_async (L @ [CR, LF]) = reply_async (L @ [LF])" if "L = [] \<or> last L \<noteq> CR"
    unfolding a reply_async_line [OF assms] pop_back_cr_id [OF that] by simp
  have "getline ((L @ [CR]) @ LF # []) = (L @ [CR], [])" by (rule getline_append [OF n])
  then show "reply_sync (L @ [CR, LF]) = Some (''# echo> '' @ L @ [CR, LF])"
    by (simp add: reply_sync_def serve_connection_def Let_def)
qed

theorem cr_stripped_witness:
  "LF \<notin> set ''hello''
   \<and> reply_async (''hello'' @ [CR, LF]) = [''# echo> '' @ ''hello'' @ [LF]]
   \<and> reply_async (''hello'' @ [CR, LF]) = reply_async (''hello'' @ [LF])
   \<and> reply_sync (''hello'' @ [CR, LF]) = Some (''# echo> '' @ ''hello'' @ [CR, LF])"
proof -
  have h: "LF \<notin> set ''hello''" by (simp add: LF_def)
  have c: "''hello'' = [] \<or> last ''hello'' \<noteq> CR" by (simp add: CR_def)
  show ?thesis using h c cr_stripped [OF h] by blast
qed

text \<open>The synchronous server answers \<open>"hello\r\n"\<close> and \<open>"hello\n"\<close> differently.\<close>

theorem cr_kept_by_sync:
  "reply_sync (''hello'' @ [CR, LF]) = Some (''# echo> hello'' @ [CR, LF])
   \<and> reply_sync (''hello'' @ [LF]) = Some (''# echo> hello'' @ [LF])
   \<and> reply_sync (''hello'' @ [CR, LF]) \<noteq> reply_sync (''hello'' @ [LF])"
  by (simp add: reply_sync_def serve_connection_def Let_def LF_def CR_def)

subsection \<open>C7: the accept loop\<close>

text \<open>
  Claim C7. Whatever accepts complete, with an error or with a socket whose remote
  endpoint can be read, the loop goes on and exactly one accept is outstanding after each
  of them. A failed accept prints nothing and starts no session; an accepted connection
  prints its endpoint and starts one session.
\<close>

theorem accept_loop_continues:
  assumes "\<forall>c\<in>set cs. fst c = 0 \<longrightarrow> snd c \<noteq> None"
  shows "\<exists>l. accept_loop cs Listener_start = Inr l \<and> accepts l = 1
           \<and> stdout l = stdout Listener_start
                 @ map (\<lambda>c. ''[server_async] client '' @ the (snd c)) (filter (\<lambda>c. fst c = 0) cs)
           \<and> length (sessions l) = length (filter (\<lambda>c. fst c = 0) cs)"
proof -
  have one: "accepts Listener_start = 1" by (simp add: Listener_start_def do_accept_def)
  have none: "sessions Listener_start = []" by (simp add: Listener_start_def do_accept_def)
  from accept_loop_ok [OF assms one] show ?thesis by (simp add: none)
qed

theorem accept_loop_continues_witness:
  "snd (0::nat, Some ''127.0.0.1:40000'') \<noteq> None
   \<and> (\<exists>l. accept_loop [(24, None), (0, Some ''127.0.0.1:40000'')] Listener_start = Inr l
          \<and> accepts l = 1
          \<and> stdout l = [''[server_async] listening on 0.0.0.0:5555'',
                        ''[server_async] client 127.0.0.1:40000'']
          \<and> length (sessions l) = 1)"
proof -
  have h: "\<forall>c\<in>set [(24::nat, None), (0, Some ''127.0.0.1:40000'')]. fst c = 0 \<longrightarrow> snd c \<noteq> None"
    by simp
  show ?thesis using accept_loop_continues [OF h]
    by (simp add: Listener_start_def do_accept_def)
qed

text \<open>
  An accept that fails with \<open>EMFILE\<close> leaves the listener as it was: the next accept is
  outstanding, and the output still holds the line printed at startup and nothing else.
\<close>

theorem accept_error_not_logged:
  "accept_loop [(24::nat, None)] Listener_start = Inr Listener_start
   \<and> stdout Listener_start = [''[server_async] listening on 0.0.0.0:5555'']"
  by (simp add: Listener_start_def do_accept_def on_accept_def)

subsection \<open>C8: the timer in the states of a session\<close>



subsection \<open>C9: the exit codes of the clients\<close>

text \<open>
  Claim C9. The synchronous client exits with 1 exactly when resolve or connect throws;
  otherwise with 2 exactly when standard input has no line, 3 exactly when the write
  fails, 4 exactly when the write succeeds and the read fails, and 0 exactly when every
  step succeeds. The asynchronous client exits with 2 exactly when standard input has no
  line, 1 exactly when a line was read and an exception leaves the \<open>try\<close> block, and 0
  in every other case, never with 3 or 4: when resolve, connect, write or read fails, its
  handler logs the error and returns, nothing is printed, and the exit code is 0.
\<close>

theorem client_exit_codes:
  "(exit_code (client_sync_main e) = 0 \<longleftrightarrow>
      resolve_ok e \<and> connect_ok e \<and> stdin_line e \<noteq> None \<and> write_ec e = 0 \<and> read_ec e = 0)
 \<and> (exit_code (client_sync_main e) = 1 \<longleftrightarrow> \<not> (resolve_ok e \<and> connect_ok e))
 \<and> (exit_code (client_sync_main e) = 2 \<longleftrightarrow> resolve_ok e \<and> connect_ok e \<and> stdin_line e = None)
 \<and> (exit_code (client_sync_main e) = 3 \<longleftrightarrow>
      resolve_ok e \<and> connect_ok e \<and> stdin_line e \<noteq> None \<and> write_ec e \<noteq> 0)
 \<and> (exit_code (client_sync_main e) = 4 \<longleftrightarrow>
      resolve_ok e \<and> connect_ok e \<and> stdin_line e \<noteq> None \<and> write_ec e = 0 \<and> read_ec e \<noteq> 0)
 \<and> (exit_code (client_async_main a) = 0 \<longleftrightarrow> a_stdin_line a \<noteq> None \<and> \<not> fatal a)
 \<and> (exit_code (client_async_main a) = 1 \<longleftrightarrow> a_stdin_line a \<noteq> None \<and> fatal a)
 \<and> (exit_code (client_async_main a) = 2 \<longleftrightarrow> a_stdin_line a = None)
 \<and> exit_code (client_async_main a) \<noteq> 3 \<and> exit_code (client_async_main a) \<noteq> 4
 \<and> (a_stdin_line a \<noteq> None \<and> \<not> fatal a
      \<and> (a_resolve_ec a \<noteq> 0 \<or> a_connect_ec a \<noteq> 0 \<or> a_write_ec a \<noteq> 0 \<or> a_read_ec a \<noteq> 0) \<longrightarrow>
      exit_code (client_async_main a) = 0 \<and> printed (client_async_main a) = None)"
proof -
  have sync: "exit_code (client_sync_main e) =
      (if \<not> (resolve_ok e \<and> connect_ok e) then 1
       else if stdin_line e = None then 2
       else if write_ec e \<noteq> 0 then 3
       else if read_ec e \<noteq> 0 then 4 else 0)"
    by (auto simp: client_sync_main_def Let_def split: option.splits)
  have async: "exit_code (client_async_main a) =
      (if a_stdin_line a = None then 2 else if fatal a then 1 else 0)"
    by (auto simp: client_async_main_def split: option.splits)
  have quiet: "printed (client_async_main a) = None"
    if "a_stdin_line a \<noteq> None \<and> \<not> fatal a
      \<and> (a_resolve_ec a \<noteq> 0 \<or> a_connect_ec a \<noteq> 0 \<or> a_write_ec a \<noteq> 0 \<or> a_read_ec a \<noteq> 0)"
    using that by (auto simp: client_async_main_def split: option.splits)
  show ?thesis
    unfolding sync async using quiet by (auto split: if_splits)
qed

theorem client_exit_codes_witness:
  "exit_code (client_sync_main \<lparr>resolve_ok = True, connect_ok = True, stdin_line = Some ''hi'',
       write_ec = 0, read_ec = 0, reply_buf = ''# echo> hi'' @ [LF]\<rparr>) = 0
   \<and> exit_code (client_sync_main \<lparr>resolve_ok = True, connect_ok = False, stdin_line = Some ''hi'',
       write_ec = 0, read_ec = 0, reply_buf = []\<rparr>) = 1
   \<and> exit_code (client_sync_main \<lparr>resolve_ok = True, connect_ok = True, stdin_line = None,
       write_ec = 0, read_ec = 0, reply_buf = []\<rparr>) = 2
   \<and> exit_code (client_sync_main \<lparr>resolve_ok = True, connect_ok = True, stdin_line = Some ''hi'',
       write_ec = 32, read_ec = 0, reply_buf = []\<rparr>) = 3
   \<and> exit_code (client_sync_main \<lparr>resolve_ok = True, connect_ok = True, stdin_line = Some ''hi'',
       write_ec = 0, read_ec = 2, reply_buf = []\<rparr>) = 4
   \<and> exit_code (client_async_main \<lparr>a_stdin_line = Some ''hi'', fatal = False, a_resolve_ec = 0,
       a_connect_ec = 111, a_write_ec = 0, a_read_ec = 0, a_reply_buf = []\<rparr>) = 0
   \<and> printed (client_async_main \<lparr>a_stdin_line = Some ''hi'', fatal = False, a_resolve_ec = 0,
       a_connect_ec = 111, a_write_ec = 0, a_read_ec = 0, a_reply_buf = []\<rparr>) = None
   \<and> exit_code (client_async_main \<lparr>a_stdin_line = Some ''hi'', fatal = True, a_resolve_ec = 0,
       a_connect_ec = 0, a_write_ec = 0, a_read_ec = 0, a_reply_buf = []\<rparr>) = 1
   \<and> exit_code (client_async_main \<lparr>a_stdin_line = None, fatal = False, a_resolve_ec = 0,
       a_connect_ec = 0, a_write_ec = 0, a_read_ec = 0, a_reply_buf = []\<rparr>) = 2"
proof -
  let ?a = "\<lparr>a_stdin_line = None, fatal = False, a_resolve_ec = 0,
       a_connect_ec = 0, a_write_ec = 0, a_read_ec = 0, a_reply_buf = []\<rparr>"
  let ?e = "\<lparr>resolve_ok = True, connect_ok = True, stdin_line = None,
       write_ec = 0, read_ec = 0, reply_buf = []\<rparr>"
  show ?thesis
    using
      client_exit_codes [of "\<lparr>resolve_ok = True, connect_ok = True, stdin_line = Some ''hi'',
         write_ec = 0, read_ec = 0, reply_buf = ''# echo> hi'' @ [LF]\<rparr>" ?a]
      client_exit_codes [of "\<lparr>resolve_ok = True, connect_ok = False, stdin_line = Some ''hi'',
         write_ec = 0, read_ec = 0, reply_buf = []\<rparr>" ?a]
      client_exit_codes [of ?e ?a]
      client_exit_codes [of "\<lparr>resolve_ok = True, connect_ok = True, stdin_line = Some ''hi'',
         write_ec = 32, read_ec = 0, reply_buf = []\<rparr>" ?a]
      client_exit_codes [of "\<lparr>resolve_ok = True, connect_ok = True, stdin_line = Some ''hi'',
         write_ec = 0, read_ec = 2, reply_buf = []\<rparr>" ?a]
      client_exit_codes [of ?e "\<lparr>a_stdin_line = Some ''hi'', fatal = False, a_resolve_ec = 0,
         a_connect_ec = 111, a_write_ec = 0, a_read_ec = 0, a_reply_buf = []\<rparr>"]
      client_exit_codes [of ?e "\<lparr>a_stdin_line = Some ''hi'', fatal = True, a_resolve_ec = 0,
         a_connect_ec = 0, a_write_ec = 0, a_read_ec = 0, a_reply_buf = []\<rparr>"]
    by simp
qed

text \<open>
  The connection is refused. The synchronous client exits with 1. The asynchronous client
  logs the error, sends and prints nothing, and exits with 0.
\<close>

theorem async_failure_exits_zero:
  "exit_code (client_async_main \<lparr>a_stdin_line = Some ''hi'', fatal = False, a_resolve_ec = 0,
       a_connect_ec = 111, a_write_ec = 0, a_read_ec = 0, a_reply_buf = []\<rparr>) = 0
   \<and> sent (client_async_main \<lparr>a_stdin_line = Some ''hi'', fatal = False, a_resolve_ec = 0,
       a_connect_ec = 111, a_write_ec = 0, a_read_ec = 0, a_reply_buf = []\<rparr>) = None
   \<and> printed (client_async_main \<lparr>a_stdin_line = Some ''hi'', fatal = False, a_resolve_ec = 0,
       a_connect_ec = 111, a_write_ec = 0, a_read_ec = 0, a_reply_buf = []\<rparr>) = None
   \<and> exit_code (client_sync_main \<lparr>resolve_ok = True, connect_ok = False,
       stdin_line = Some ''hi'', write_ec = 0, read_ec = 0, reply_buf = []\<rparr>) = 1"
  by (simp add: client_async_main_def client_sync_main_def)

subsection \<open>C10: the empty line\<close>

text \<open>
  Claim C10. For an empty input line the asynchronous client sends no byte at all, since
  its constructor appends \<open>'\n'\<close> to a non-empty line only, and the synchronous client,
  which always appends \<open>'\n'\<close>, sends that one byte: the two send different bytes.
\<close>

theorem empty_line_clients:
  "Client_out [] = [] \<and> length (Client_out []) = 0
   \<and> client_sync_line [] = [LF] \<and> length (client_sync_line []) = 1
   \<and> Client_out [] \<noteq> client_sync_line []
   \<and> Client_out (line @ [c]) = (if c = LF then line @ [c] else line @ [c, LF])
   \<and> client_sync_line line = line @ [LF]
   \<and> sent (client_async_main \<lparr>a_stdin_line = Some [], fatal = False, a_resolve_ec = 0,
              a_connect_ec = 0, a_write_ec = 0, a_read_ec = 0, a_reply_buf = buf\<rparr>) = Some []
   \<and> sent (client_sync_main \<lparr>resolve_ok = True, connect_ok = True, stdin_line = Some [],
              write_ec = 0, read_ec = 0, reply_buf = buf\<rparr>) = Some [LF]"
  by (simp add: Client_out_def client_sync_line_def client_async_main_def client_sync_main_def)

theorem empty_line_clients_witness:
  "Client_out [] = [] \<and> client_sync_line [] = [LF]
   \<and> Client_out [] \<noteq> client_sync_line []
   \<and> Client_out (''h'' @ [CHR ''i'']) = ''h'' @ [CHR ''i'', LF]
   \<and> sent (client_async_main \<lparr>a_stdin_line = Some [], fatal = False, a_resolve_ec = 0,
              a_connect_ec = 0, a_write_ec = 0, a_read_ec = 0, a_reply_buf = []\<rparr>) = Some []
   \<and> sent (client_sync_main \<lparr>resolve_ok = True, connect_ok = True, stdin_line = Some [],
              write_ec = 0, read_ec = 0, reply_buf = ''# echo> '' @ [LF]\<rparr>) = Some [LF]"
proof -
  have c: "CHR ''i'' \<noteq> LF" by (simp add: LF_def)
  show ?thesis
    using c empty_line_clients [of "''h''" "CHR ''i''" "[]"]
      empty_line_clients [of "''h''" "CHR ''i''" "''# echo> '' @ [LF]"]
    by simp
qed

end
